theory Spec2Isabelle
  imports Main "HOL-Library.Word" "HOL-Library.Multiset"
begin

section \<open>Text of an IPv4 address\<close>

text \<open>
  The discovery script works on \<^verbatim>\<open>ipaddress.IPv4Address\<close> objects, which hold the address
  as an integer in the range \<open>0 .. 2^32 - 1\<close>.  Their \<^verbatim>\<open>str()\<close> is the dotted quad
  \<^verbatim>\<open>'.'.join(map(str, ip_int.to_bytes(4, 'big')))\<close>.  The model covers IPv4 ranges; the
  addresses of an IPv6 range are outside it.
\<close>

type_synonym ipv4 = "32 word"

datatype error = ValueError | KeyError | TypeError

definition digit_char :: "nat \<Rightarrow> char" where
  "digit_char d = char_of (48 + d)"

function str_nat :: "nat \<Rightarrow> string" where
  "str_nat n = (if n < 10 then [digit_char n] else str_nat (n div 10) @ [digit_char (n mod 10)])"
  by pat_completeness auto
termination
  by (relation "measure id") auto

declare str_nat.simps [simp del]

fun join :: "string \<Rightarrow> string list \<Rightarrow> string" where
  "join sep [] = []"
| "join sep [x] = x"
| "join sep (x # y # zs) = x @ sep @ join sep (y # zs)"

definition to_bytes :: "ipv4 \<Rightarrow> nat list" where
  "to_bytes ip = [unat ip div 2 ^ 24 mod 256, unat ip div 2 ^ 16 mod 256,
                  unat ip div 2 ^ 8 mod 256, unat ip mod 256]"

definition ipv4_str :: "ipv4 \<Rightarrow> string" where
  "ipv4_str ip = join ''.'' (map str_nat (to_bytes ip))"

text \<open>
  \<^verbatim>\<open>s.split('.')\<close> with a one-character separator: never empty, the pieces between the
  separators.
\<close>

fun split :: "char \<Rightarrow> string \<Rightarrow> string list" where
  "split c [] = [[]]"
| "split c (x # xs) =
     (if x = c then [] # split c xs
      else (case split c xs of w # ws \<Rightarrow> (x # w) # ws | [] \<Rightarrow> [[x]]))"

text \<open>
  \<^verbatim>\<open>int(s)\<close> on a text of ASCII decimal digits, the only texts the classifier passes to
  it (see \<open>last_octet_text\<close> below).  Python also accepts surrounding white space, a sign
  and single underscores between digits; those forms are not modelled, and every text
  that is not a non-empty run of digits is a \<^verbatim>\<open>ValueError\<close> here.
\<close>

definition is_digit :: "char \<Rightarrow> bool" where
  "is_digit c = ((48::nat) \<le> of_char c \<and> of_char c \<le> (57::nat))"

definition digit_val :: "char \<Rightarrow> nat" where
  "digit_val c = of_char c - 48"

definition py_int :: "string \<Rightarrow> error + int" where
  "py_int s =
     (if s \<noteq> [] \<and> list_all is_digit s
      then Inr (int (foldl (\<lambda>acc c. 10 * acc + digit_val c) 0 s))
      else Inl ValueError)"

section \<open>Classification\<close>

definition classify_device_type :: "ipv4 \<Rightarrow> error + (string \<times> string)" where
  "classify_device_type ip =
     (case py_int (last (split (CHR ''.'') (ipv4_str ip))) of
        Inl e \<Rightarrow> Inl e
      | Inr last_octet \<Rightarrow>
          if 1 \<le> last_octet \<and> last_octet \<le> 10 then Inr (''cisco_routers'', ''ios'')
          else if 11 \<le> last_octet \<and> last_octet \<le> 30 then Inr (''cisco_switches'', ''ios'')
          else if 31 \<le> last_octet \<and> last_octet \<le> 40 then Inr (''arista_switches'', ''eos'')
          else if 41 \<le> last_octet \<and> last_octet \<le> 50 then Inr (''juniper_routers'', ''junos'')
          else if 51 \<le> last_octet \<and> last_octet \<le> 60 then Inr (''palo_alto_firewalls'', ''panos'')
          else if 61 \<le> last_octet \<and> last_octet \<le> 70 then Inr (''fortinet_firewalls'', ''fortios'')
          else Inr (''unknown_devices'', ''unknown''))"

section \<open>The inventory document\<close>

text \<open>
  The inventory is a nest of Python dictionaries with text, integer and boolean leaves.
  A dictionary keeps its keys in insertion order; assigning to a key that is present
  replaces the value where it stands, assigning to a new key appends it.
\<close>

datatype pyval = Str string | Num int | Bool bool | Dict "(string \<times> pyval) list"

type_synonym pydict = "(string \<times> pyval) list"

fun dict_set :: "pydict \<Rightarrow> string \<Rightarrow> pyval \<Rightarrow> pydict" where
  "dict_set [] k v = [(k, v)]"
| "dict_set ((k', v') # d) k v =
     (if k' = k then (k, v) # d else (k', v') # dict_set d k v)"

definition dict_update :: "pydict \<Rightarrow> pydict \<Rightarrow> pydict" where
  "dict_update d kvs = foldl (\<lambda>acc (k, v). dict_set acc k v) d kvs"

text \<open>
  \<^verbatim>\<open>root[p1][p2]...[pn][k] = v\<close>: every subscript on the way is a lookup that raises
  \<^verbatim>\<open>KeyError\<close> when the key is missing (and \<^verbatim>\<open>TypeError\<close> when the value is not a
  dictionary); the last one stores.  The document is a tree without shared nodes, so the
  in-place store is the rebuilt spine.
\<close>

fun set_item_path :: "pyval \<Rightarrow> string list \<Rightarrow> string \<Rightarrow> pyval \<Rightarrow> error + pyval" where
  "set_item_path (Dict d) [] k v = Inr (Dict (dict_set d k v))"
| "set_item_path (Dict d) (p # ps) k v =
     (case map_of d p of
        None \<Rightarrow> Inl KeyError
      | Some sub \<Rightarrow>
          (case set_item_path sub ps k v of
             Inl e \<Rightarrow> Inl e
           | Inr sub' \<Rightarrow> Inr (Dict (dict_set d p sub'))))"
| "set_item_path _ _ _ _ = Inl TypeError"


definition initial_inventory :: pyval where
  "initial_inventory =
     Dict [(''all'', Dict [(''children'', Dict [
       (''cisco_devices'', Dict [(''children'', Dict [
          (''cisco_routers'', Dict [(''hosts'', Dict [])]),
          (''cisco_switches'', Dict [(''hosts'', Dict [])])])]),
       (''palo_alto_devices'', Dict [(''children'', Dict [
          (''palo_alto_firewalls'', Dict [(''hosts'', Dict [])])])]),
       (''fortinet_devices'', Dict [(''children'', Dict [
          (''fortinet_firewalls'', Dict [(''hosts'', Dict [])])])]),
       (''juniper_devices'', Dict [(''children'', Dict [
          (''juniper_routers'', Dict [(''hosts'', Dict [])])])]),
       (''arista_devices'', Dict [(''children'', Dict [
          (''arista_switches'', Dict [(''hosts'', Dict [])])])]),
       (''unknown_devices'', Dict [(''hosts'', Dict [])])])])]"

section \<open>Building the inventory\<close>

definition replace_char :: "char \<Rightarrow> char \<Rightarrow> string \<Rightarrow> string" where
  "replace_char old new s = map (\<lambda>c. if c = old then new else c) s"

definition hostname_of :: "ipv4 \<Rightarrow> string" where
  "hostname_of ip = ''device-'' @ replace_char (CHR ''.'') (CHR ''-'') (ipv4_str ip)"

definition device_config :: "ipv4 \<Rightarrow> string \<Rightarrow> pydict" where
  "device_config ip os_type =
     (let base = [(''ansible_host'', Str (ipv4_str ip)),
                  (''device_role'', Str ''auto_discovered''),
                  (''site'', Str ''discovered'')]
      in if os_type = ''ios'' then
           dict_update base
             [(''ansible_network_os'', Str ''ios''),
              (''ansible_connection'', Str ''network_cli''),
              (''ansible_user'', Str ''{{ vault_cisco_username }}''),
              (''ansible_password'', Str ''{{ vault_cisco_password }}'')]
         else if os_type = ''eos'' then
           dict_update base
             [(''ansible_network_os'', Str ''eos''),
              (''ansible_connection'', Str ''httpapi''),
              (''ansible_httpapi_use_ssl'', Bool True),
              (''ansible_httpapi_port'', Num 443),
              (''ansible_user'', Str ''{{ vault_arista_username }}''),
              (''ansible_password'', Str ''{{ vault_arista_password }}'')]
         else if os_type = ''junos'' then
           dict_update base
             [(''ansible_network_os'', Str ''junos''),
              (''ansible_connection'', Str ''netconf''),
              (''ansible_user'', Str ''{{ vault_juniper_username }}''),
              (''ansible_password'', Str ''{{ vault_juniper_password }}'')]
         else if os_type = ''panos'' then
           dict_update base
             [(''ansible_connection'', Str ''local''),
              (''panos_username'', Str ''{{ vault_panos_username }}''),
              (''panos_password'', Str ''{{ vault_panos_password }}''),
              (''panos_provider'', Dict
                 [(''ip_address'', Str ''{{ ansible_host }}''),
                  (''username'', Str ''{{ panos_username }}''),
                  (''password'', Str ''{{ panos_password }}'')])]
         else if os_type = ''fortios'' then
           dict_update base
             [(''ansible_connection'', Str ''httpapi''),
              (''ansible_httpapi_use_ssl'', Bool True),
              (''ansible_httpapi_port'', Num 443),
              (''ansible_httpapi_session_key'', Str ''{{ vault_fortigate_api_token }}'')]
         else base)"

text \<open>
  The subscripts from the root down to the \<^verbatim>\<open>hosts\<close> dictionary a record is stored in:
  \<^verbatim>\<open>inventory['all']['children']\<close> first, then the branch the group name selects.
\<close>

definition group_path :: "string \<Rightarrow> string list" where
  "group_path device_group =
     [''all'', ''children''] @
     (if device_group \<in> set [''cisco_routers'', ''cisco_switches'']
        then [''cisco_devices'', ''children'', device_group, ''hosts'']
      else if device_group = ''palo_alto_firewalls''
        then [''palo_alto_devices'', ''children'', device_group, ''hosts'']
      else if device_group = ''fortinet_firewalls''
        then [''fortinet_devices'', ''children'', device_group, ''hosts'']
      else if device_group = ''juniper_routers''
        then [''juniper_devices'', ''children'', device_group, ''hosts'']
      else if device_group = ''arista_switches''
        then [''arista_devices'', ''children'', device_group, ''hosts'']
      else [''unknown_devices'', ''hosts''])"

text \<open>One turn of the loop over the discovered hosts, and the loop.\<close>

definition add_host :: "pyval \<Rightarrow> ipv4 \<Rightarrow> error + pyval" where
  "add_host inventory ip =
     (case classify_device_type ip of
        Inl e \<Rightarrow> Inl e
      | Inr (device_group, os_type) \<Rightarrow>
          set_item_path inventory (group_path device_group) (hostname_of ip)
            (Dict (device_config ip os_type)))"

fun add_hosts :: "pyval \<Rightarrow> ipv4 list \<Rightarrow> error + pyval" where
  "add_hosts inventory [] = Inr inventory"
| "add_hosts inventory (ip # rest) =
     (case add_host inventory ip of
        Inl e \<Rightarrow> Inl e
      | Inr inventory' \<Rightarrow> add_hosts inventory' rest)"

text \<open>The parameter \<^verbatim>\<open>output_format\<close> is accepted and never read.\<close>

definition generate_inventory :: "ipv4 list \<Rightarrow> string \<Rightarrow> error + pyval" where
  "generate_inventory discovered_hosts output_format = add_hosts initial_inventory discovered_hosts"

section \<open>Probing\<close>

text \<open>
  What lies outside the script is a parameter of the model:
  \<^item> \<open>ip_network_hosts\<close> is \<^verbatim>\<open>ipaddress.ip_network(s, strict=False).hosts()\<close>: the host
    addresses of the range, or \<open>Inl msg\<close> for \<^verbatim>\<open>ValueError(msg)\<close>;
  \<^item> \<open>sys_platform\<close> is \<^verbatim>\<open>sys.platform\<close>;
  \<^item> \<open>subprocess_run\<close> is what \<^verbatim>\<open>subprocess.run(cmd, capture_output=True, timeout=5)\<close> does
    for a command;
  \<^item> \<open>sock_connect_ex\<close> is what creating a socket with the given timeout and calling
    \<^verbatim>\<open>connect_ex\<close> on the (host, port) pair does;
  \<^item> \<open>ping_completed\<close> and \<open>ssh_completed\<close> give the order in which \<^verbatim>\<open>as_completed\<close>
    hands back the futures of each pass, as a rearrangement of the order of submission;
  \<^item> \<open>yaml_dump\<close>, \<open>json_dump\<close> are the two renderers and \<open>write_file\<close> is opening the
    output path and writing the text, \<open>Inl msg\<close> for an exception with that message.
\<close>

datatype run_result = Returncode int | TimeoutExpired | RunException

datatype connect_result = ConnectEx int | SocketException

record env =
  ip_network_hosts :: "string \<Rightarrow> string + ipv4 list"
  sys_platform :: string
  subprocess_run :: "string list \<Rightarrow> run_result"
  sock_connect_ex :: "nat \<Rightarrow> string \<times> nat \<Rightarrow> connect_result"
  ping_completed :: "ipv4 list \<Rightarrow> ipv4 list"
  ssh_completed :: "ipv4 list \<Rightarrow> ipv4 list"
  yaml_dump :: "pyval \<Rightarrow> string"
  json_dump :: "pyval \<Rightarrow> string"
  write_file :: "string \<Rightarrow> string \<Rightarrow> string + unit"

definition ping_cmd :: "string \<Rightarrow> ipv4 \<Rightarrow> string list" where
  "ping_cmd plat ip =
     (if plat = ''win32'' then [''ping'', ''-n'', ''1'', ''-w'', ''1000'', ipv4_str ip]
      else [''ping'', ''-c'', ''1'', ''-W'', ''1'', ipv4_str ip])"

definition ping_host :: "env \<Rightarrow> ipv4 \<Rightarrow> ipv4 option" where
  "ping_host e ip =
     (case subprocess_run e (ping_cmd (sys_platform e) ip) of
        Returncode rc \<Rightarrow> if rc = 0 then Some ip else None
      | TimeoutExpired \<Rightarrow> None
      | RunException \<Rightarrow> None)"

definition check_ssh_port :: "env \<Rightarrow> ipv4 \<Rightarrow> nat \<Rightarrow> nat \<Rightarrow> ipv4 option" where
  "check_ssh_port e ip port timeout =
     (case sock_connect_ex e timeout (ipv4_str ip, port) of
        ConnectEx r \<Rightarrow> if r = 0 then Some ip else None
      | SocketException \<Rightarrow> None)"

text \<open>
  \<^verbatim>\<open>ThreadPoolExecutor(max_workers=n)\<close> raises \<^verbatim>\<open>ValueError\<close> for \<open>n \<le> 0\<close>.
\<close>

definition thread_pool_executor :: "int \<Rightarrow> error + unit" where
  "thread_pool_executor max_workers = (if max_workers \<le> 0 then Inl ValueError else Inr ())"

datatype probe = Ping ipv4 | Connect ipv4 nat

text \<open>
  The result of a run: the value returned or the exception that escaped, the lines
  printed, the probes submitted, and the files written.
\<close>

record 'a outcome =
  returned :: "error + 'a"
  printed :: "string list"
  probes :: "probe list"
  files :: "(string \<times> string) list"

definition discover_network_devices :: "env \<Rightarrow> string \<Rightarrow> int \<Rightarrow> (ipv4 list) outcome" where
  "discover_network_devices e network_range max_workers =
     (let out0 = [''Discovering devices in network range: '' @ network_range] in
      case ip_network_hosts e network_range of
        Inl msg \<Rightarrow>
          \<lparr>returned = Inr [], printed = out0 @ [''Invalid network range: '' @ msg],
           probes = [], files = []\<rparr>
      | Inr network_hosts \<Rightarrow>
          (case thread_pool_executor max_workers of
             Inl err \<Rightarrow> \<lparr>returned = Inl err, printed = out0, probes = [], files = []\<rparr>
           | Inr _ \<Rightarrow>
               (let live_hosts = List.map_filter (ping_host e) (ping_completed e network_hosts);
                    out1 = out0 @ [''Found '' @ str_nat (length live_hosts) @ '' responding hosts''];
                    log1 = map Ping network_hosts
                in case thread_pool_executor (max_workers div 2) of
                     Inl err \<Rightarrow> \<lparr>returned = Inl err, printed = out1, probes = log1, files = []\<rparr>
                   | Inr _ \<Rightarrow>
                       (let ssh_hosts = List.map_filter (\<lambda>ip. check_ssh_port e ip 22 3)
                                          (ssh_completed e live_hosts);
                            out2 = out1 @ [''Found '' @ str_nat (length ssh_hosts)
                                             @ '' hosts with SSH enabled'']
                        in \<lparr>returned = Inr (sort ssh_hosts), printed = out2,
                            probes = log1 @ map (\<lambda>ip. Connect ip 22) live_hosts,
                            files = []\<rparr>))))"

section \<open>The command line tool\<close>

text \<open>
  The parsed command line.  The tool prints the output path through \<^verbatim>\<open>pathlib.Path\<close>; the
  model prints it as given, which is the same text for a path in normal form.
\<close>

record args =
  network :: string
  output_path :: string
  format :: string
  workers :: int

definition next_steps :: "string list" where
  "next_steps =
     [CHR 0x0A # ''Next steps:'',
      ''1. Review and customize the generated inventory file'',
      ''2. Update device credentials in vault/secrets.yml'',
      ''3. Test connectivity with ansible all -m ping'',
      ''4. Customize device classifications as needed'']"

definition main :: "env \<Rightarrow> args \<Rightarrow> unit outcome" where
  "main e a =
     (let banner = [''Network Device Discovery Tool'', replicate 40 (CHR ''='')];
          d = discover_network_devices e (network a) (workers a);
          out = banner @ printed d
      in case returned d of
           Inl err \<Rightarrow> \<lparr>returned = Inl err, printed = out, probes = probes d, files = []\<rparr>
         | Inr discovered_hosts \<Rightarrow>
             if discovered_hosts = [] then
               \<lparr>returned = Inr (), printed = out @ [''No network devices found with SSH enabled''],
                probes = probes d, files = []\<rparr>
             else
               (case generate_inventory discovered_hosts (format a) of
                  Inl err \<Rightarrow> \<lparr>returned = Inl err, printed = out, probes = probes d, files = []\<rparr>
                | Inr inventory \<Rightarrow>
                    (let text = (if format a = ''yaml'' then yaml_dump e inventory
                                 else json_dump e inventory)
                     in case write_file e (output_path a) text of
                          Inl msg \<Rightarrow>
                            \<lparr>returned = Inr (),
                             printed = out @ [''Error writing inventory file: '' @ msg],
                             probes = probes d, files = []\<rparr>
                        | Inr _ \<Rightarrow>
                            \<lparr>returned = Inr (),
                             printed = out @
                               [CHR 0x0A # ''Inventory file created: '' @ output_path a,
                                ''Discovered '' @ str_nat (length discovered_hosts)
                                  @ '' network devices''] @ next_steps,
                             probes = probes d, files = [(output_path a, text)]\<rparr>)))"

text \<open>
  The exit status of the process: 0 when \<^verbatim>\<open>main\<close> returns, 1 when an exception escapes it.
\<close>

definition exit_status :: "'a outcome \<Rightarrow> nat" where
  "exit_status r = (case returned r of Inl _ \<Rightarrow> 1 | Inr _ \<Rightarrow> 0)"

section \<open>Vocabulary of the properties\<close>

text \<open>The seven groups that hold host records, in the order of the initial dictionary.\<close>

definition leaf_groups :: "string list" where
  "leaf_groups = [''cisco_routers'', ''cisco_switches'', ''palo_alto_firewalls'',
                  ''fortinet_firewalls'', ''juniper_routers'', ''arista_switches'',
                  ''unknown_devices'']"

text \<open>The group skeleton with a given \<^verbatim>\<open>hosts\<close> dictionary in each leaf.\<close>

definition skeleton :: "(string \<Rightarrow> pydict) \<Rightarrow> pyval" where
  "skeleton h =
     Dict [(''all'', Dict [(''children'', Dict [
       (''cisco_devices'', Dict [(''children'', Dict [
          (''cisco_routers'', Dict [(''hosts'', Dict (h ''cisco_routers''))]),
          (''cisco_switches'', Dict [(''hosts'', Dict (h ''cisco_switches''))])])]),
       (''palo_alto_devices'', Dict [(''children'', Dict [
          (''palo_alto_firewalls'', Dict [(''hosts'', Dict (h ''palo_alto_firewalls''))])])]),
       (''fortinet_devices'', Dict [(''children'', Dict [
          (''fortinet_firewalls'', Dict [(''hosts'', Dict (h ''fortinet_firewalls''))])])]),
       (''juniper_devices'', Dict [(''children'', Dict [
          (''juniper_routers'', Dict [(''hosts'', Dict (h ''juniper_routers''))])])]),
       (''arista_devices'', Dict [(''children'', Dict [
          (''arista_switches'', Dict [(''hosts'', Dict (h ''arista_switches''))])])]),
       (''unknown_devices'', Dict [(''hosts'', Dict (h ''unknown_devices''))])])])]"

text \<open>The fourth byte of an address, and the two components of its classification.\<close>

definition last_octet :: "ipv4 \<Rightarrow> nat" where
  "last_octet ip = last (to_bytes ip)"

definition group_of :: "ipv4 \<Rightarrow> string" where
  "group_of ip = (case classify_device_type ip of Inr (g, _) \<Rightarrow> g | Inl _ \<Rightarrow> [])"

definition os_of :: "ipv4 \<Rightarrow> string" where
  "os_of ip = (case classify_device_type ip of Inr (_, os) \<Rightarrow> os | Inl _ \<Rightarrow> [])"

text \<open>
  The records stored in one leaf: starting from \<open>d\<close>, the stores of the addresses of the
  list that are classified into group \<open>g\<close>, in the order of the list.
\<close>

fun place :: "string \<Rightarrow> pydict \<Rightarrow> ipv4 list \<Rightarrow> pydict" where
  "place g d [] = d"
| "place g d (ip # rest) =
     place g (if group_of ip = g
              then dict_set d (hostname_of ip) (Dict (device_config ip (os_of ip)))
              else d) rest"





text \<open>The two probes as predicates on an address.\<close>

definition is_live :: "env \<Rightarrow> ipv4 \<Rightarrow> bool" where
  "is_live e ip = (ping_host e ip \<noteq> None)"

definition ssh_open :: "env \<Rightarrow> ipv4 \<Rightarrow> bool" where
  "ssh_open e ip = (check_ssh_port e ip 22 3 \<noteq> None)"

text \<open>
  The host addresses of a range as the pipeline sees them: none when the range is refused.
\<close>

definition expanded :: "env \<Rightarrow> string \<Rightarrow> ipv4 list" where
  "expanded e network_range =
     (case ip_network_hosts e network_range of Inl _ \<Rightarrow> [] | Inr network_hosts \<Rightarrow> network_hosts)"

text \<open>
  Every submitted future completes exactly once: the order of completion of each pass is a
  rearrangement of the order of submission.
\<close>

definition fair_completion :: "env \<Rightarrow> bool" where
  "fair_completion e \<longleftrightarrow>
     (\<forall>xs. mset (ping_completed e xs) = mset xs) \<and> (\<forall>xs. mset (ssh_completed e xs) = mset xs)"

text \<open>
  Simulated surroundings for concrete runs: two known ranges (every other descriptor is
  refused), the addresses of \<open>live\<close> answer the ping and every other ping times out, the
  addresses of \<open>listening\<close> accept a connection on port 22 and every other connection
  raises, futures complete in the reverse of the order of submission, and the file
  system accepts every write.
\<close>

definition sim_env :: "ipv4 list \<Rightarrow> ipv4 list \<Rightarrow> env" where
  "sim_env live listening =
     \<lparr>ip_network_hosts = (\<lambda>s.
        if s = ''203.0.113.0/30'' then Inr [0xCB007101, 0xCB007102]
        else if s = ''192.168.1.0/29''
          then Inr [0xC0A80101, 0xC0A80102, 0xC0A80103, 0xC0A80104, 0xC0A80105, 0xC0A80106]
        else Inl (CHR 0x27 # s @ CHR 0x27 # '' does not appear to be an IPv4 or IPv6 network'')),
      sys_platform = ''linux'',
      subprocess_run = (\<lambda>cmd.
        if cmd \<in> set (map (ping_cmd ''linux'') live) then Returncode 0 else TimeoutExpired),
      sock_connect_ex = (\<lambda>timeout address.
        if address \<in> set (map (\<lambda>ip. (ipv4_str ip, 22)) listening) then ConnectEx 0
        else SocketException),
      ping_completed = rev,
      ssh_completed = rev,
      yaml_dump = (\<lambda>v. ''yaml''),
      json_dump = (\<lambda>v. ''json''),
      write_file = (\<lambda>path text. Inr ())\<rparr>"

definition sim_args :: "string \<Rightarrow> int \<Rightarrow> args" where
  "sim_args network_range max_workers =
     \<lparr>network = network_range, output_path = ''discovered_inventory.yml'',
      format = ''yaml'', workers = max_workers\<rparr>"

section \<open>Facts about the text of an address\<close>

lemma is_digit_digit_char: "d < 10 \<Longrightarrow> is_digit (digit_char d)"
  by (simp add: is_digit_def digit_char_def)

lemma digit_val_digit_char: "d < 10 \<Longrightarrow> digit_val (digit_char d) = d"
  by (simp add: digit_val_def digit_char_def)

lemma str_nat_nonempty: "str_nat n \<noteq> []"
  by (subst str_nat.simps) simp

lemma str_nat_digits: "list_all is_digit (str_nat n)"
proof (induction n rule: str_nat.induct)
  case (1 n)
  show ?case
  proof (cases "n < 10")
    case True
    then show ?thesis by (subst str_nat.simps) (simp add: is_digit_digit_char)
  next
    case False
    with 1 show ?thesis by (subst str_nat.simps) (simp add: is_digit_digit_char)
  qed
qed

lemma str_nat_value: "foldl (\<lambda>acc c. 10 * acc + digit_val c) 0 (str_nat n) = n"
proof (induction n rule: str_nat.induct)
  case (1 n)
  show ?case
  proof (cases "n < 10")
    case True
    then show ?thesis by (subst str_nat.simps) (simp add: digit_val_digit_char)
  next
    case False
    with 1 show ?thesis by (subst str_nat.simps) (simp add: digit_val_digit_char)
  qed
qed

lemma py_int_str_nat: "py_int (str_nat n) = Inr (int n)"
  by (simp add: py_int_def str_nat_nonempty str_nat_digits str_nat_value)

lemma digits_no_sep: "list_all is_digit s \<Longrightarrow> \<not> is_digit c \<Longrightarrow> c \<notin> set s"
  by (auto simp: list_all_iff)

lemma split_no_sep: "c \<notin> set s \<Longrightarrow> split c s = [s]"
  by (induction s) auto

lemma split_append_sep:
  "c \<notin> set x \<Longrightarrow> split c (x @ c # rest) = x # split c rest"
  by (induction x) auto

lemma split_join:
  "xs \<noteq> [] \<Longrightarrow> \<forall>x\<in>set xs. c \<notin> set x \<Longrightarrow> split c (join [c] xs) = xs"
  by (induction "[c]" xs rule: join.induct) (auto simp: split_no_sep split_append_sep)

lemma split_dot_ipv4_str: "split (CHR ''.'') (ipv4_str ip) = map str_nat (to_bytes ip)"
  unfolding ipv4_str_def
  apply (rule split_join[of _ "CHR ''.''", simplified])
   apply (simp add: to_bytes_def)
  apply (auto intro!: digits_no_sep[OF str_nat_digits] simp: is_digit_def)
  done

lemma last_octet_text: "last (split (CHR ''.'') (ipv4_str ip)) = str_nat (unat ip mod 256)"
  by (simp add: split_dot_ipv4_str to_bytes_def)

section \<open>Facts about the group skeleton\<close>

lemma initial_inventory_skeleton: "initial_inventory = skeleton (\<lambda>_. [])"
  by (simp add: initial_inventory_def skeleton_def)

lemma leaf_groups_iff:
  "g \<in> set leaf_groups \<longleftrightarrow> (g = ''cisco_routers'' \<or> g = ''cisco_switches'' \<or> g = ''palo_alto_firewalls'' \<or> g = ''fortinet_firewalls'' \<or> g = ''juniper_routers'' \<or> g = ''arista_switches'' \<or> g = ''unknown_devices'')"
  by (simp only: leaf_groups_def list.set insert_iff empty_iff simp_thms)

lemma set_item_path_skeleton:
  assumes "g \<in> set leaf_groups"
  shows "set_item_path (skeleton h) (group_path g) k v = Inr (skeleton (h(g := dict_set (h g) k v)))"
proof -
  from assms have "g = ''cisco_routers'' \<or> g = ''cisco_switches'' \<or> g = ''palo_alto_firewalls'' \<or> g = ''fortinet_firewalls'' \<or> g = ''juniper_routers'' \<or> g = ''arista_switches'' \<or> g = ''unknown_devices''"
    by (simp only: leaf_groups_iff)
  then show ?thesis
  proof (elim disjE)
  assume c: "g = ''cisco_routers''"
  show ?thesis unfolding c by (simp add: skeleton_def group_path_def)
next
  assume c: "g = ''cisco_switches''"
  show ?thesis unfolding c by (simp add: skeleton_def group_path_def)
next
  assume c: "g = ''palo_alto_firewalls''"
  show ?thesis unfolding c by (simp add: skeleton_def group_path_def)
next
  assume c: "g = ''fortinet_firewalls''"
  show ?thesis unfolding c by (simp add: skeleton_def group_path_def)
next
  assume c: "g = ''juniper_routers''"
  show ?thesis unfolding c by (simp add: skeleton_def group_path_def)
next
  assume c: "g = ''arista_switches''"
  show ?thesis unfolding c by (simp add: skeleton_def group_path_def)
next
  assume c: "g = ''unknown_devices''"
  show ?thesis unfolding c by (simp add: skeleton_def group_path_def)
  qed
qed


section \<open>Facts about classification and the loop\<close>

lemma last_octet_eq: "last_octet ip = unat ip mod 256"
  by (simp add: last_octet_def to_bytes_def)

lemma classify_device_type_eq:
  "classify_device_type ip =
     Inr (if 1 \<le> last_octet ip \<and> last_octet ip \<le> 10 then (''cisco_routers'', ''ios'')
          else if 11 \<le> last_octet ip \<and> last_octet ip \<le> 30 then (''cisco_switches'', ''ios'')
          else if 31 \<le> last_octet ip \<and> last_octet ip \<le> 40 then (''arista_switches'', ''eos'')
          else if 41 \<le> last_octet ip \<and> last_octet ip \<le> 50 then (''juniper_routers'', ''junos'')
          else if 51 \<le> last_octet ip \<and> last_octet ip \<le> 60 then (''palo_alto_firewalls'', ''panos'')
          else if 61 \<le> last_octet ip \<and> last_octet ip \<le> 70 then (''fortinet_firewalls'', ''fortios'')
          else (''unknown_devices'', ''unknown''))"
  unfolding classify_device_type_def last_octet_text py_int_str_nat last_octet_eq
  by (simp del: One_nat_def)

lemma classify_group_of: "classify_device_type ip = Inr (group_of ip, os_of ip)"
  by (simp add: group_of_def os_of_def classify_device_type_eq)

lemma group_of_leaf: "group_of ip \<in> set leaf_groups"
  by (simp add: group_of_def classify_device_type_eq leaf_groups_def)

lemma add_host_skeleton:
  "add_host (skeleton h) ip =
     Inr (skeleton (h(group_of ip :=
            dict_set (h (group_of ip)) (hostname_of ip) (Dict (device_config ip (os_of ip))))))"
  by (simp add: add_host_def classify_group_of set_item_path_skeleton [OF group_of_leaf])

lemma add_hosts_skeleton:
  "add_hosts (skeleton h) hosts = Inr (skeleton (\<lambda>g. place g (h g) hosts))"
proof (induction hosts arbitrary: h)
  case Nil
  show ?case by simp
next
  case (Cons ip rest)
  have "add_hosts (skeleton h) (ip # rest) =
        add_hosts (skeleton (h(group_of ip :=
            dict_set (h (group_of ip)) (hostname_of ip) (Dict (device_config ip (os_of ip)))))) rest"
    by (simp add: add_host_skeleton)
  also have "\<dots> = Inr (skeleton (\<lambda>g. place g ((h(group_of ip :=
            dict_set (h (group_of ip)) (hostname_of ip) (Dict (device_config ip (os_of ip))))) g) rest))"
    by (rule Cons.IH)
  also have "(\<lambda>g. place g ((h(group_of ip :=
            dict_set (h (group_of ip)) (hostname_of ip) (Dict (device_config ip (os_of ip))))) g) rest)
        = (\<lambda>g. place g (h g) (ip # rest))"
    by (rule ext) simp
  finally show ?case .
qed

lemma generate_inventory_skeleton:
  "generate_inventory hosts fmt = Inr (skeleton (\<lambda>g. place g [] hosts))"
  by (simp add: generate_inventory_def initial_inventory_skeleton add_hosts_skeleton)

section \<open>Distinct addresses have distinct host names\<close>

lemma div_mod_256_eqI:
  fixes m n :: nat
  assumes "m div 256 = n div 256" and "m mod 256 = n mod 256"
  shows "m = n"
  using assms by (metis div_mult_mod_eq)

lemma to_bytes_inj:
  assumes "to_bytes a = to_bytes b"
  shows "a = b"
proof -
  let ?m = "unat a" and ?n = "unat b"
  have la: "?m < 2 ^ 32" and lb: "?n < 2 ^ 32"
    using unsigned_less [of a] unsigned_less [of b] by simp_all
  from assms have b3: "?m div 2 ^ 24 mod 256 = ?n div 2 ^ 24 mod 256"
    and b2: "?m div 2 ^ 16 mod 256 = ?n div 2 ^ 16 mod 256"
    and b1: "?m div 2 ^ 8 mod 256 = ?n div 2 ^ 8 mod 256"
    and b0: "?m mod 256 = ?n mod 256"
    by (simp_all add: to_bytes_def)
  have "?m div 2 ^ 24 < 256" "?n div 2 ^ 24 < 256"
    using la lb by simp_all
  with b3 have e3: "?m div 2 ^ 24 = ?n div 2 ^ 24"
    by simp
  have "?m div 2 ^ 16 div 256 = ?n div 2 ^ 16 div 256"
    using e3 by (simp add: div_mult2_eq [symmetric])
  then have e2: "?m div 2 ^ 16 = ?n div 2 ^ 16"
    using b2 by (rule div_mod_256_eqI)
  have "?m div 2 ^ 8 div 256 = ?n div 2 ^ 8 div 256"
    using e2 by (simp add: div_mult2_eq [symmetric])
  then have e1: "?m div 2 ^ 8 = ?n div 2 ^ 8"
    using b1 by (rule div_mod_256_eqI)
  have "?m div 256 = ?n div 256"
    using e1 by simp
  then have "?m = ?n"
    using b0 by (rule div_mod_256_eqI)
  then show ?thesis
    by (simp add: word_unat_eq_iff)
qed

lemma str_nat_inj:
  assumes "str_nat m = str_nat n"
  shows "m = n"
proof -
  have "py_int (str_nat m) = py_int (str_nat n)"
    by (simp only: assms)
  then show ?thesis
    by (simp only: py_int_str_nat sum.inject of_nat_eq_iff)
qed

lemma str_nat_eq_iff: "str_nat m = str_nat n \<longleftrightarrow> m = n"
  using str_nat_inj by blast

lemma ipv4_str_inj:
  assumes "ipv4_str a = ipv4_str b"
  shows "a = b"
proof -
  have "map str_nat (to_bytes a) = map str_nat (to_bytes b)"
    by (simp only: assms split_dot_ipv4_str [symmetric])
  then have "to_bytes a = to_bytes b"
    by (simp add: to_bytes_def str_nat_eq_iff)
  then show ?thesis
    by (rule to_bytes_inj)
qed






section \<open>Facts about the records of a leaf\<close>









section \<open>Facts about reading a built document\<close>










section \<open>Facts about the two probing passes\<close>

lemma ping_host_cases: "ping_host e ip = (if is_live e ip then Some ip else None)"
  by (simp add: is_live_def ping_host_def split: run_result.splits)

lemma check_ssh_port_cases: "check_ssh_port e ip 22 3 = (if ssh_open e ip then Some ip else None)"
  by (simp add: ssh_open_def check_ssh_port_def split: connect_result.splits)

lemma map_filter_ping: "List.map_filter (ping_host e) xs = filter (is_live e) xs"
  by (induction xs) (simp_all add: List.map_filter_simps ping_host_cases)

lemma map_filter_ssh:
  "List.map_filter (\<lambda>ip. check_ssh_port e ip 22 3) xs = filter (ssh_open e) xs"
  by (induction xs) (simp_all add: List.map_filter_simps check_ssh_port_cases)

lemma sort_cong_mset: "mset xs = mset ys \<Longrightarrow> sort xs = sort (ys :: ipv4 list)"
  by (rule properties_for_sort) simp_all

lemma thread_pool_ok: "0 < n \<Longrightarrow> thread_pool_executor n = Inr ()"
  by (simp add: thread_pool_executor_def)

lemma discover_refused:
  assumes "ip_network_hosts e r = Inl msg"
  shows "discover_network_devices e r w =
     \<lparr>returned = Inr [],
      printed = [''Discovering devices in network range: '' @ r,
                 ''Invalid network range: '' @ msg],
      probes = [], files = []\<rparr>"
  by (simp add: discover_network_devices_def assms)

lemma discover_accepted:
  assumes "ip_network_hosts e r = Inr hs" and "2 \<le> w"
  shows "discover_network_devices e r w =
     \<lparr>returned = Inr (sort (filter (ssh_open e) (ssh_completed e (filter (is_live e) (ping_completed e hs))))),
      printed = [''Discovering devices in network range: '' @ r,
                 ''Found '' @ str_nat (length (filter (is_live e) (ping_completed e hs))) @ '' responding hosts'',
                 ''Found '' @ str_nat (length (filter (ssh_open e) (ssh_completed e (filter (is_live e) (ping_completed e hs)))))
                   @ '' hosts with SSH enabled''],
      probes = map Ping hs @ map (\<lambda>ip. Connect ip 22) (filter (is_live e) (ping_completed e hs)),
      files = []\<rparr>"
proof -
  have "0 < w" and "0 < w div 2" using assms(2) by simp_all
  then show ?thesis
    by (simp add: discover_network_devices_def assms(1) thread_pool_ok map_filter_ping map_filter_ssh Let_def)
qed

lemma discovered_mset:
  assumes "fair_completion e"
  shows "mset (filter (ssh_open e) (ssh_completed e (filter (is_live e) (ping_completed e hs))))
       = mset (filter (\<lambda>ip. is_live e ip \<and> ssh_open e ip) hs)"
proof -
  from assms have p: "\<And>xs. mset (ping_completed e xs) = mset xs"
    and s: "\<And>xs. mset (ssh_completed e xs) = mset xs"
    by (simp_all add: fair_completion_def)
  have "mset (filter (ssh_open e) (ssh_completed e (filter (is_live e) (ping_completed e hs))))
      = filter_mset (ssh_open e) (filter_mset (is_live e) (mset hs))"
    by (simp only: mset_filter s p)
  also have "\<dots> = mset (filter (\<lambda>ip. is_live e ip \<and> ssh_open e ip) hs)"
    by (simp add: filter_filter_mset conj_commute)
  finally show ?thesis .
qed

lemma discover_returned:
  assumes "fair_completion e" and "2 \<le> w"
  shows "returned (discover_network_devices e r w)
       = Inr (sort (filter (\<lambda>ip. is_live e ip \<and> ssh_open e ip) (expanded e r)))"
proof (cases "ip_network_hosts e r")
  case (Inl msg)
  then show ?thesis
    by (simp add: discover_refused expanded_def)
next
  case (Inr hs)
  then show ?thesis
    using sort_cong_mset [OF discovered_mset [OF assms(1), of hs]]
    by (simp add: discover_accepted [OF Inr assms(2)] expanded_def)
qed

lemma discover_one_worker:
  assumes "ip_network_hosts e r = Inr hs"
  shows "returned (discover_network_devices e r 1) = Inl ValueError"
  by (simp add: discover_network_devices_def assms thread_pool_executor_def Let_def)

section \<open>Facts about the command line tool\<close>


lemma main_refused:
  assumes "ip_network_hosts e (network a) = Inl msg"
  shows "main e a =
     \<lparr>returned = Inr (),
      printed = [''Network Device Discovery Tool'', replicate 40 (CHR ''=''),
                 ''Discovering devices in network range: '' @ network a,
                 ''Invalid network range: '' @ msg,
                 ''No network devices found with SSH enabled''],
      probes = [], files = []\<rparr>"
  by (simp add: main_def discover_refused [OF assms])



section \<open>Facts about the simulated surroundings\<close>

lemma fair_completion_sim: "fair_completion (sim_env live listening)"
  by (simp add: fair_completion_def sim_env_def)

lemma ping_cmd_inj: "ping_cmd plat a = ping_cmd plat b \<Longrightarrow> a = b"
  by (rule ipv4_str_inj) (simp add: ping_cmd_def split: if_splits)

lemma is_live_sim: "is_live (sim_env live listening) ip \<longleftrightarrow> ip \<in> set live"
proof -
  have "ping_cmd ''linux'' ip \<in> ping_cmd ''linux'' ` set live \<longleftrightarrow> ip \<in> set live"
    using ping_cmd_inj by blast
  then show ?thesis
    by (simp add: is_live_def ping_host_def sim_env_def)
qed

lemma ssh_open_sim: "ssh_open (sim_env live listening) ip \<longleftrightarrow> ip \<in> set listening"
proof -
  have "(ipv4_str ip, 22::nat) \<in> (\<lambda>ip. (ipv4_str ip, 22)) ` set listening \<longleftrightarrow> ip \<in> set listening"
    using ipv4_str_inj by blast
  then show ?thesis
    by (simp add: ssh_open_def check_ssh_port_def sim_env_def)
qed

lemma expanded_sim_29:
  "expanded (sim_env live listening) ''192.168.1.0/29'' =
     [0xC0A80101, 0xC0A80102, 0xC0A80103, 0xC0A80104, 0xC0A80105, 0xC0A80106]"
  by (simp add: expanded_def sim_env_def)

lemma hosts_sim_29:
  "ip_network_hosts (sim_env live listening) ''192.168.1.0/29'' =
     Inr [0xC0A80101, 0xC0A80102, 0xC0A80103, 0xC0A80104, 0xC0A80105, 0xC0A80106]"
  by (simp add: sim_env_def)


lemma refused_sim:
  "ip_network_hosts (sim_env live listening) ''not-a-network'' =
     Inl (CHR 0x27 # ''not-a-network'' @ CHR 0x27 # '' does not appear to be an IPv4 or IPv6 network'')"
  by (simp add: sim_env_def)




section \<open>Facts about concrete runs of the builder\<close>

lemma ipv4_str_10_0_0_5: "ipv4_str 0x0A000005 = ''10.0.0.5''"
  apply (simp add: ipv4_str_def to_bytes_def)
  apply code_simp
  done

lemma hostname_10_0_0_5: "hostname_of 0x0A000005 = ''device-10-0-0-5''"
  by (simp add: hostname_of_def ipv4_str_10_0_0_5 replace_char_def)

lemma class_10_0_0_5: "group_of 0x0A000005 = ''cisco_routers''" "os_of 0x0A000005 = ''ios''"
  by (simp_all add: group_of_def os_of_def classify_device_type_eq last_octet_eq)

lemma config_10_0_0_5:
  "device_config 0x0A000005 ''ios'' =
     [(''ansible_host'', Str ''10.0.0.5''),
      (''device_role'', Str ''auto_discovered''),
      (''site'', Str ''discovered''),
      (''ansible_network_os'', Str ''ios''),
      (''ansible_connection'', Str ''network_cli''),
      (''ansible_user'', Str ''{{ vault_cisco_username }}''),
      (''ansible_password'', Str ''{{ vault_cisco_password }}'')]"
  by (simp add: device_config_def dict_update_def ipv4_str_10_0_0_5)


lemma place_10_0_0_5_once:
  "place g [] [0x0A000005] =
     (if g = ''cisco_routers''
      then [(''device-10-0-0-5'', Dict
             [(''ansible_host'', Str ''10.0.0.5''),
              (''device_role'', Str ''auto_discovered''),
              (''site'', Str ''discovered''),
              (''ansible_network_os'', Str ''ios''),
              (''ansible_connection'', Str ''network_cli''),
              (''ansible_user'', Str ''{{ vault_cisco_username }}''),
              (''ansible_password'', Str ''{{ vault_cisco_password }}'')])]
      else [])"
  by (simp add: class_10_0_0_5 hostname_10_0_0_5 config_10_0_0_5)

lemma place_nil: "(\<lambda>g. place g [] []) = (\<lambda>g. [])"
  by simp





section \<open>Classification by the last octet\<close>

text \<open>
  Claim C1.  For every IPv4 address the text after the last dot of the address is the
  decimal numeral of its fourth byte, and the classifier sends that number to
  \<^verbatim>\<open>cisco_routers\<close>/\<^verbatim>\<open>ios\<close> for 1 to 10, \<^verbatim>\<open>cisco_switches\<close>/\<^verbatim>\<open>ios\<close> for 11 to 30,
  \<^verbatim>\<open>arista_switches\<close>/\<^verbatim>\<open>eos\<close> for 31 to 40, \<^verbatim>\<open>juniper_routers\<close>/\<^verbatim>\<open>junos\<close> for 41 to 50,
  \<^verbatim>\<open>palo_alto_firewalls\<close>/\<^verbatim>\<open>panos\<close> for 51 to 60, \<^verbatim>\<open>fortinet_firewalls\<close>/\<^verbatim>\<open>fortios\<close> for
  61 to 70, and to \<^verbatim>\<open>unknown_devices\<close>/\<^verbatim>\<open>unknown\<close> for every other value; it never raises.
\<close>

theorem classify_last_octet_bins:
  "last (split (CHR ''.'') (ipv4_str ip)) = str_nat (last_octet ip) \<and>
   classify_device_type ip =
     Inr (if 1 \<le> last_octet ip \<and> last_octet ip \<le> 10 then (''cisco_routers'', ''ios'')
          else if 11 \<le> last_octet ip \<and> last_octet ip \<le> 30 then (''cisco_switches'', ''ios'')
          else if 31 \<le> last_octet ip \<and> last_octet ip \<le> 40 then (''arista_switches'', ''eos'')
          else if 41 \<le> last_octet ip \<and> last_octet ip \<le> 50 then (''juniper_routers'', ''junos'')
          else if 51 \<le> last_octet ip \<and> last_octet ip \<le> 60 then (''palo_alto_firewalls'', ''panos'')
          else if 61 \<le> last_octet ip \<and> last_octet ip \<le> 70 then (''fortinet_firewalls'', ''fortios'')
          else (''unknown_devices'', ''unknown''))"
  using last_octet_text [of ip] classify_device_type_eq [of ip]
  by (simp only: last_octet_eq simp_thms)

theorem classify_last_octet_bins_witness:
  "classify_device_type 0xC0A80105 = Inr (''cisco_routers'', ''ios'') \<and>
   classify_device_type 0xC0A80119 = Inr (''cisco_switches'', ''ios'') \<and>
   classify_device_type 0xC0A80123 = Inr (''arista_switches'', ''eos'') \<and>
   classify_device_type 0xC0A8012D = Inr (''juniper_routers'', ''junos'') \<and>
   classify_device_type 0xC0A80137 = Inr (''palo_alto_firewalls'', ''panos'') \<and>
   classify_device_type 0xC0A80141 = Inr (''fortinet_firewalls'', ''fortios'') \<and>
   classify_device_type 0xC0A801C8 = Inr (''unknown_devices'', ''unknown'') \<and>
   classify_device_type 0xC0A80100 = Inr (''unknown_devices'', ''unknown'')"
  using classify_last_octet_bins [of "0xC0A80105"] classify_last_octet_bins [of "0xC0A80119"]
    classify_last_octet_bins [of "0xC0A80123"] classify_last_octet_bins [of "0xC0A8012D"]
    classify_last_octet_bins [of "0xC0A80137"] classify_last_octet_bins [of "0xC0A80141"]
    classify_last_octet_bins [of "0xC0A801C8"] classify_last_octet_bins [of "0xC0A80100"]
  by (simp add: last_octet_eq)

section \<open>The result of discovery\<close>

text \<open>
  Claim C9.  Whenever every future completes exactly once and the worker bound is at least
  two (the default is 50), discovery returns the addresses of the range that answer the
  ping and accept the connection, in ascending order, whatever the order in which the
  probes complete; a refused range has no addresses and gives the empty list.
\<close>

theorem discover_returns_sorted:
  assumes "fair_completion e" and "2 \<le> max_workers"
  shows "returned (discover_network_devices e network_range max_workers)
       = Inr (sort (filter (\<lambda>ip. is_live e ip \<and> ssh_open e ip) (expanded e network_range)))"
  using assms by (rule discover_returned)

theorem discover_returns_sorted_witness:
  "fair_completion (sim_env [0xC0A80101, 0xC0A80102, 0xC0A80103, 0xC0A80105]
                            [0xC0A80105, 0xC0A80103, 0xC0A80106, 0xC0A80101]) \<and>
   (2::int) \<le> 50 \<and>
   returned (discover_network_devices
      (sim_env [0xC0A80101, 0xC0A80102, 0xC0A80103, 0xC0A80105]
               [0xC0A80105, 0xC0A80103, 0xC0A80106, 0xC0A80101]) ''192.168.1.0/29'' 50)
     = Inr [0xC0A80101, 0xC0A80103, 0xC0A80105]"
  using discover_returns_sorted [OF fair_completion_sim, of 50
      "[0xC0A80101, 0xC0A80102, 0xC0A80103, 0xC0A80105]"
      "[0xC0A80105, 0xC0A80103, 0xC0A80106, 0xC0A80101]" "''192.168.1.0/29''"]
  by (simp add: fair_completion_sim is_live_sim ssh_open_sim expanded_sim_29)

text \<open>
  Claim C8.  With a worker bound of one the second pool is created with
  \<open>1 div 2 = 0\<close> workers, which the executor refuses: discovery raises \<^verbatim>\<open>ValueError\<close>
  after the ping pass, on a range and responders for which the bound 50 returns three
  addresses.
\<close>

theorem one_worker_second_pool_fails:
  "returned (discover_network_devices
      (sim_env [0xC0A80101, 0xC0A80102, 0xC0A80103, 0xC0A80105]
               [0xC0A80105, 0xC0A80103, 0xC0A80106, 0xC0A80101]) ''192.168.1.0/29'' 1)
     = Inl ValueError \<and>
   returned (discover_network_devices
      (sim_env [0xC0A80101, 0xC0A80102, 0xC0A80103, 0xC0A80105]
               [0xC0A80105, 0xC0A80103, 0xC0A80106, 0xC0A80101]) ''192.168.1.0/29'' 50)
     = Inr [0xC0A80101, 0xC0A80103, 0xC0A80105]"
  using discover_one_worker [OF hosts_sim_29]
    discover_returned [OF fair_completion_sim, of 50
      "[0xC0A80101, 0xC0A80102, 0xC0A80103, 0xC0A80105]"
      "[0xC0A80105, 0xC0A80103, 0xC0A80106, 0xC0A80101]" "''192.168.1.0/29''"]
  by (simp add: is_live_sim ssh_open_sim expanded_sim_29)

section \<open>A refused range\<close>

text \<open>
  Claim C3, as stated, fails: a descriptor that the parser refuses does not make the
  pipeline fail.  On the descriptor \<^verbatim>\<open>not-a-network\<close> discovery returns the empty list
  without a probe, and the tool prints its no-devices line and ends with exit status 0.
\<close>

theorem invalid_range_exits_normally:
  "returned (discover_network_devices (sim_env [] []) ''not-a-network'' 50) = Inr [] \<and>
   probes (discover_network_devices (sim_env [] []) ''not-a-network'' 50) = [] \<and>
   returned (main (sim_env [] []) (sim_args ''not-a-network'' 50)) = Inr () \<and>
   last (printed (main (sim_env [] []) (sim_args ''not-a-network'' 50)))
     = ''No network devices found with SSH enabled'' \<and>
   exit_status (main (sim_env [] []) (sim_args ''not-a-network'' 50)) = 0"
  using discover_refused [OF refused_sim, of "[]" "[]" 50]
    main_refused [of "sim_env [] []" "sim_args ''not-a-network'' 50", unfolded sim_args_def, simplified, OF refused_sim]
  by (simp add: exit_status_def sim_args_def)

text \<open>
  Claim C3, amended.  For every descriptor that the parser refuses, discovery catches
  the error, prints \<^verbatim>\<open>Invalid network range:\<close> with the parser's message and returns the
  empty list without submitting any probe; the tool then prints
  \<^verbatim>\<open>No network devices found with SSH enabled\<close>, writes no file and returns normally
  (exit status 0).
\<close>

theorem refused_range_reported_without_probing:
  assumes "ip_network_hosts e (network a) = Inl msg"
  shows "discover_network_devices e (network a) (workers a) =
           \<lparr>returned = Inr [],
            printed = [''Discovering devices in network range: '' @ network a,
                       ''Invalid network range: '' @ msg],
            probes = [], files = []\<rparr> \<and>
         main e a =
           \<lparr>returned = Inr (),
            printed = [''Network Device Discovery Tool'', replicate 40 (CHR ''=''),
                       ''Discovering devices in network range: '' @ network a,
                       ''Invalid network range: '' @ msg,
                       ''No network devices found with SSH enabled''],
            probes = [], files = []\<rparr> \<and>
         exit_status (main e a) = 0"
  using discover_refused [OF assms] main_refused [OF assms]
  by (simp add: exit_status_def)

theorem refused_range_reported_without_probing_witness:
  "ip_network_hosts (sim_env [] []) (network (sim_args ''not-a-network'' 50)) =
     Inl (CHR 0x27 # ''not-a-network'' @ CHR 0x27 # '' does not appear to be an IPv4 or IPv6 network'') \<and>
   probes (discover_network_devices (sim_env [] []) ''not-a-network'' 50) = [] \<and>
   main (sim_env [] []) (sim_args ''not-a-network'' 50) =
     \<lparr>returned = Inr (),
      printed = [''Network Device Discovery Tool'', replicate 40 (CHR ''=''),
                 ''Discovering devices in network range: not-a-network'',
                 ''Invalid network range: '' @ CHR 0x27 # ''not-a-network'' @ CHR 0x27 #
                    '' does not appear to be an IPv4 or IPv6 network'',
                 ''No network devices found with SSH enabled''],
      probes = [], files = []\<rparr> \<and>
   exit_status (main (sim_env [] []) (sim_args ''not-a-network'' 50)) = 0"
  using refused_range_reported_without_probing [of "sim_env [] []" "sim_args ''not-a-network'' 50"]
    refused_sim [of "[]" "[]"]
  by (simp add: sim_args_def exit_status_def)

section \<open>A range without devices\<close>




section \<open>The group skeleton\<close>

text \<open>
  Claim C10.  For every list of discovered addresses, the empty list included, the build
  returns the fixed skeleton: the root \<^verbatim>\<open>all\<close> with the children \<^verbatim>\<open>cisco_devices\<close>
  (\<^verbatim>\<open>cisco_routers\<close>, \<^verbatim>\<open>cisco_switches\<close>), \<^verbatim>\<open>palo_alto_devices\<close> (\<^verbatim>\<open>palo_alto_firewalls\<close>),
  \<^verbatim>\<open>fortinet_devices\<close> (\<^verbatim>\<open>fortinet_firewalls\<close>), \<^verbatim>\<open>juniper_devices\<close> (\<^verbatim>\<open>juniper_routers\<close>),
  \<^verbatim>\<open>arista_devices\<close> (\<^verbatim>\<open>arista_switches\<close>) and \<^verbatim>\<open>unknown_devices\<close>; each leaf holds the
  records of the addresses classified into it, and for the empty list every leaf is empty.
\<close>

theorem skeleton_always_built:
  "generate_inventory hosts fmt = Inr (skeleton (\<lambda>g. place g [] hosts)) \<and>
   generate_inventory [] fmt = Inr (skeleton (\<lambda>g. []))"
  using generate_inventory_skeleton [of hosts fmt] generate_inventory_skeleton [of "[]" fmt]
  by (simp only: place_nil simp_thms)

theorem skeleton_always_built_witness:
  "generate_inventory [0x0A000005] ''json'' =
     Inr (skeleton (\<lambda>g.
       if g = ''cisco_routers''
       then [(''device-10-0-0-5'', Dict
              [(''ansible_host'', Str ''10.0.0.5''),
               (''device_role'', Str ''auto_discovered''),
               (''site'', Str ''discovered''),
               (''ansible_network_os'', Str ''ios''),
               (''ansible_connection'', Str ''network_cli''),
               (''ansible_user'', Str ''{{ vault_cisco_username }}''),
               (''ansible_password'', Str ''{{ vault_cisco_password }}'')])]
       else [])) \<and>
   generate_inventory [] ''json'' = Inr initial_inventory"
  using skeleton_always_built [of "[0x0A000005]" "''json''"]
  by (simp only: place_10_0_0_5_once initial_inventory_skeleton simp_thms)

section \<open>Host names in a built document\<close>




section \<open>Overlay groups\<close>



section \<open>The fate of an address\<close>



end
